theory Spec2Isabelle
  imports Main
begin

section \<open>Theme modes and the wire format\<close>

text \<open>
  The three values of \<^verbatim>\<open>z.enum(['system', 'light', 'dark'])\<close>, the type of
  \<^verbatim>\<open>submission.value.theme\<close>, of \<^verbatim>\<open>mode\<close> and of \<^verbatim>\<open>nextMode\<close>.
\<close>

datatype ThemeMode = System | Light | Dark

text \<open>
  Modelled from the spec: the declaration of the type \<^verbatim>\<open>Theme\<close> is imported from
  \<^verbatim>\<open>./utils/theme.server.ts\<close>, which is not among the sources. The spec has the stored
  preference returned as the effective theme, which it guarantees to be a concrete,
  renderable value, light or dark, never system. The code uses the type in that way:
  \<^verbatim>\<open>Document\<close> writes a \<^verbatim>\<open>Theme\<close> into the class of the \<^verbatim>\<open>html\<close> element, and \<^verbatim>\<open>ThemeSwitch\<close>
  puts \<^verbatim>\<open>'system'\<close> in the place of an absent one.
\<close>

datatype Theme = LightTheme | DarkTheme

text \<open>A \<^verbatim>\<open>Theme\<close> read as a mode (the same string).\<close>

fun Theme_mode :: "Theme \<Rightarrow> ThemeMode" where
  "Theme_mode LightTheme = Light"
| "Theme_mode DarkTheme = Dark"

text \<open>The string a mode is written as in the hidden input and in form data.\<close>

fun ThemeMode_string :: "ThemeMode \<Rightarrow> string" where
  "ThemeMode_string System = ''system''"
| "ThemeMode_string Light = ''light''"
| "ThemeMode_string Dark = ''dark''"

text \<open>\<^verbatim>\<open>z.enum(['system', 'light', 'dark'])\<close>: a string is accepted when it is one of the three.\<close>

definition z_enum :: "string \<Rightarrow> ThemeMode option" where
  "z_enum s =
     (if s = ''system'' then Some System
      else if s = ''light'' then Some Light
      else if s = ''dark'' then Some Dark
      else None)"

text \<open>
  Form data: the entries in their order, a name with a string or a file each. A name can
  occur more than once.
\<close>

datatype FormDataEntryValue = Text string | File

type_synonym FormData = "(string \<times> FormDataEntryValue) list"

definition getAll :: "FormData \<Rightarrow> string \<Rightarrow> FormDataEntryValue list" where
  "getAll entries name = map snd (filter (\<lambda>entry. fst entry = name) entries)"

text \<open>
  The object the parser hands to the schema: a name that occurs once holds its value, a name
  that occurs several times holds the array of its values.
\<close>

datatype PayloadValue = Single FormDataEntryValue | Array "FormDataEntryValue list"

definition payload_of :: "FormData \<Rightarrow> string \<rightharpoonup> PayloadValue" where
  "payload_of entries name =
     (case getAll entries name of
        [] \<Rightarrow> None
      | [v] \<Rightarrow> Some (Single v)
      | v # w # vs \<Rightarrow> Some (Array (v # w # vs)))"

record ThemeForm =
  theme :: ThemeMode

text \<open>
  \<^verbatim>\<open>ThemeFormSchema = z.object({ theme: z.enum([...]) })\<close>: the property \<^verbatim>\<open>theme\<close> has to be
  one of the three strings (an array or a file is not); other properties are ignored.
\<close>

definition ThemeFormSchema :: "(string \<rightharpoonup> PayloadValue) \<Rightarrow> ThemeForm option" where
  "ThemeFormSchema payload =
     (case payload ''theme'' of
        Some (Single (Text s)) \<Rightarrow> map_option (\<lambda>t. \<lparr>theme = t\<rparr>) (z_enum s)
      | _ \<Rightarrow> None)"

section \<open>What the code can throw\<close>

text \<open>
  \<^verbatim>\<open>TypeError\<close>: reading a property of \<^verbatim>\<open>null\<close> or \<^verbatim>\<open>undefined\<close>, or a request body that is
  not form data. \<^verbatim>\<open>SyntaxError\<close> and \<^verbatim>\<open>Exception message\<close>: the other errors the parser can
  throw. \<^verbatim>\<open>Response status body\<close>: the response \<^verbatim>\<open>invariantResponse\<close> throws.
\<close>

datatype thrown = TypeError | SyntaxError | Exception string | Response nat string

definition invariantResponse :: "bool \<Rightarrow> string \<Rightarrow> thrown + unit" where
  "invariantResponse condition message =
     (if condition then Inr () else Inl (Response 400 message))"

section \<open>Parsing a submission\<close>

datatype SubmissionStatus = Success | Error

text \<open>
  The submission \<^verbatim>\<open>parseWithZod\<close> returns: with status \<^verbatim>\<open>'success'\<close> and the parsed value,
  with status \<^verbatim>\<open>'error'\<close>, or with no status (when the form data carries an intent).
\<close>

datatype 'a Submission = Succeeded 'a | Failed | Unsettled

fun status :: "'a Submission \<Rightarrow> SubmissionStatus option" where
  "status (Succeeded v) = Some Success"
| "status Failed = Some Error"
| "status Unsettled = None"

text \<open>
  Names made of letters only, the names of the members every object has apart: they are
  neither reserved by the parser (\<^verbatim>\<open>__intent__\<close>, \<^verbatim>\<open>__state__\<close>) nor paths into a nested value
  (\<^verbatim>\<open>a.b\<close>, \<^verbatim>\<open>a[0]\<close>), and the object the parser collects has no value under them before
  the first entry.
\<close>

definition letters :: string where
  "letters = ''abcdefghijklmnopqrstuvwxyzABCDEFGHIJKLMNOPQRSTUVWXYZ''"

definition object_members :: "string list" where
  "object_members =
     [''constructor'', ''hasOwnProperty'', ''isPrototypeOf'', ''propertyIsEnumerable'',
      ''toLocaleString'', ''toString'', ''valueOf'']"

definition plain_name :: "string \<Rightarrow> bool" where
  "plain_name name =
     (name \<noteq> [] \<and> list_all (\<lambda>c. c \<in> set letters) name \<and> name \<notin> set object_members)"

text \<open>
  Form data of plainly named fields, where a name that occurs several times has no empty
  value.
\<close>

definition plain_fields :: "FormData \<Rightarrow> bool" where
  "plain_fields entries =
     list_all
       (\<lambda>entry. plain_name (fst entry)
          \<and> (if Text [] \<in> set (getAll entries (fst entry))
              then length (getAll entries (fst entry)) \<le> 1 else True))
       entries"

text \<open>
  Form data whose first \<^verbatim>\<open>__intent__\<close> is the string \<^verbatim>\<open>null\<close>, with no \<^verbatim>\<open>__state__\<close> and with
  plain names otherwise.
\<close>

definition null_intent :: "FormData \<Rightarrow> bool" where
  "null_intent entries =
     (getAll entries ''__state__'' = []
      \<and> (case getAll entries ''__intent__'' of
            Text s # _ \<Rightarrow> s = ''null''
          | _ \<Rightarrow> False)
      \<and> list_all (\<lambda>entry. fst entry = ''__intent__'' \<or> plain_name (fst entry)) entries)"

text \<open>Form data whose first \<^verbatim>\<open>__intent__\<close> is a string that is not empty.\<close>

definition intent_text :: "FormData \<Rightarrow> bool" where
  "intent_text entries =
     (case getAll entries ''__intent__'' of
        Text s # _ \<Rightarrow> s \<noteq> []
      | _ \<Rightarrow> False)"

text \<open>
  \<^verbatim>\<open>parseWithZod(formData, { schema })\<close> of \<^verbatim>\<open>@conform-to/zod\<close>, which is not part of the
  repository. It is written out where the shape of the form data fixes what it does:
  \<^item> on plain fields it collects the entries into an object and the schema decides between
    \<^verbatim>\<open>'success'\<close> and \<^verbatim>\<open>'error'\<close>;
  \<^item> it reads the reserved field \<^verbatim>\<open>__intent__\<close> as JSON and then its property \<^verbatim>\<open>type\<close>, so the
    string \<^verbatim>\<open>null\<close> there makes it throw a \<^verbatim>\<open>TypeError\<close>, whatever the other fields hold;
  \<^item> any other intent that is not empty either makes it throw or gives a submission with no
    status, whatever the schema says of the other fields.

  Whether it throws on such an intent, and its whole answer on all other form data (a state,
  names that are paths), is the parameter \<^verbatim>\<open>lib\<close>: the answer of the library there.
\<close>

definition parseWithZod ::
  "(FormData \<Rightarrow> thrown + 'a Submission) \<Rightarrow> FormData \<Rightarrow> ((string \<rightharpoonup> PayloadValue) \<Rightarrow> 'a option)
     \<Rightarrow> thrown + 'a Submission" where
  "parseWithZod lib entries schema =
     (if plain_fields entries
      then (case schema (payload_of entries) of
              Some v \<Rightarrow> Inr (Succeeded v)
            | None \<Rightarrow> Inr Failed)
      else if null_intent entries then Inl TypeError
      else if intent_text entries
      then (case lib entries of Inl e \<Rightarrow> Inl e | Inr _ \<Rightarrow> Inr Unsettled)
      else lib entries)"

text \<open>
  A library that answers all other form data with a submission of no status, as the parser
  does for a well-formed intent such as the one that asks to validate the form.
\<close>

definition lib_unsettled :: "FormData \<Rightarrow> thrown + 'a Submission" where
  "lib_unsettled entries = Inr Unsettled"

definition validate_intent :: string where
  \<open>validate_intent = ''{"type":"validate","payload":{}}''\<close>

section \<open>The optimistic theme mode\<close>

text \<open>A fetcher of \<^verbatim>\<open>useFetchers()\<close>: the two properties the code reads, each possibly undefined.\<close>

record Fetcher =
  formAction :: "string option"
  formData :: "FormData option"

text \<open>
  \<^verbatim>\<open>useOptimisticThemeMode\<close>, with the snapshot of \<^verbatim>\<open>useFetchers()\<close> as its argument.
  \<^verbatim>\<open>Inr None\<close> is the \<^verbatim>\<open>undefined\<close> the function returns when it falls through; what the
  parser throws is not caught.
\<close>

definition useOptimisticThemeMode ::
  "(FormData \<Rightarrow> thrown + ThemeForm Submission) \<Rightarrow> Fetcher list \<Rightarrow> thrown + ThemeMode option" where
  "useOptimisticThemeMode lib fetchers =
     (let themeFetcher = List.find (\<lambda>f. formAction f = Some ''/'') fetchers in
      case themeFetcher of
        None \<Rightarrow> Inr None
      | Some f \<Rightarrow>
          (case formData f of
             None \<Rightarrow> Inr None
           | Some payload \<Rightarrow>
               (case parseWithZod lib payload ThemeFormSchema of
                  Inl e \<Rightarrow> Inl e
                | Inr submission \<Rightarrow>
                    (case submission of
                       Succeeded v \<Rightarrow> Inr (Some (theme v))
                     | _ \<Rightarrow> Inr None))))"

text \<open>A fetcher in flight that submits the one field \<^verbatim>\<open>theme = s\<close> to the action at \<^verbatim>\<open>path\<close>.\<close>

definition theme_fetcher :: "string \<Rightarrow> string \<Rightarrow> Fetcher" where
  "theme_fetcher path s = \<lparr>formAction = Some path, formData = Some [(''theme'', Text s)]\<rparr>"

section \<open>The effective theme\<close>

text \<open>
  The values of \<^verbatim>\<open>useHints()\<close> and \<^verbatim>\<open>useRequestInfo()\<close>, with the fields the code reads:
  \<^verbatim>\<open>hints.theme\<close> and \<^verbatim>\<open>requestInfo.userPrefs.theme\<close> (absent when null).
\<close>

record Hints =
  hint_theme :: ThemeMode

record UserPrefs =
  prefs_theme :: "Theme option"

record RequestInfo =
  userPrefs :: UserPrefs

definition useTheme ::
  "(FormData \<Rightarrow> thrown + ThemeForm Submission) \<Rightarrow> Hints \<Rightarrow> RequestInfo \<Rightarrow> Fetcher list
     \<Rightarrow> thrown + ThemeMode" where
  "useTheme lib hints requestInfo fetchers =
     (case useOptimisticThemeMode lib fetchers of
        Inl e \<Rightarrow> Inl e
      | Inr optimisticMode \<Rightarrow>
          (case optimisticMode of
             Some m \<Rightarrow> Inr (if m = System then hint_theme hints else m)
           | None \<Rightarrow>
               Inr (case prefs_theme (userPrefs requestInfo) of
                      Some t \<Rightarrow> Theme_mode t
                    | None \<Rightarrow> hint_theme hints)))"

section \<open>The theme switch\<close>

text \<open>\<^verbatim>\<open>nextMode\<close> as a function of \<^verbatim>\<open>mode\<close>.\<close>

definition nextMode :: "ThemeMode \<Rightarrow> ThemeMode" where
  "nextMode mode = (if mode = System then Light else if mode = Light then Dark else System)"

text \<open>
  What \<^verbatim>\<open>ThemeSwitch\<close> renders: the label of \<^verbatim>\<open>mode\<close> on the button and the value of the
  hidden input named \<^verbatim>\<open>theme\<close>.
\<close>

record ThemeSwitchForm =
  shown :: ThemeMode
  hidden_theme :: string

definition ThemeSwitch ::
  "(FormData \<Rightarrow> thrown + ThemeForm Submission) \<Rightarrow> Theme option \<Rightarrow> Fetcher list
     \<Rightarrow> thrown + ThemeSwitchForm" where
  "ThemeSwitch lib userPreference fetchers =
     (case useOptimisticThemeMode lib fetchers of
        Inl e \<Rightarrow> Inl e
      | Inr optimisticMode \<Rightarrow>
          (let mode = (case optimisticMode of
                         Some m \<Rightarrow> m
                       | None \<Rightarrow>
                           (case userPreference of Some t \<Rightarrow> Theme_mode t | None \<Rightarrow> System))
           in Inr \<lparr>shown = mode, hidden_theme = ThemeMode_string (nextMode mode)\<rparr>))"

text \<open>The form data of a submission of that form: its one named control.\<close>

definition submitted :: "ThemeSwitchForm \<Rightarrow> FormData" where
  "submitted form = [(''theme'', Text (hidden_theme form))]"

section \<open>The server action\<close>

text \<open>A request: its body as form data, absent when the body is not form data.\<close>

record Request =
  body :: "FormData option"

record ActionResponse =
  result :: SubmissionStatus
  set_cookie :: string

text \<open>
  \<^verbatim>\<open>action\<close>. \<^verbatim>\<open>setTheme\<close> (the cookie header of a mode) is imported from
  \<^verbatim>\<open>./utils/theme.server.ts\<close> and is a parameter here. What the parser throws is not caught.
\<close>

definition action ::
  "(FormData \<Rightarrow> thrown + ThemeForm Submission) \<Rightarrow> (ThemeMode \<Rightarrow> string) \<Rightarrow> Request
     \<Rightarrow> thrown + ActionResponse" where
  "action lib setTheme request =
     (case body request of
        None \<Rightarrow> Inl TypeError
      | Some payload \<Rightarrow>
          (case parseWithZod lib payload ThemeFormSchema of
             Inl e \<Rightarrow> Inl e
           | Inr submission \<Rightarrow>
               (case invariantResponse (status submission = Some Success)
                       ''Invalid theme received'' of
                  Inl e \<Rightarrow> Inl e
                | Inr _ \<Rightarrow>
                    (case submission of
                       Succeeded v \<Rightarrow> Inr \<lparr>result = Success, set_cookie = setTheme (theme v)\<rparr>
                     | _ \<Rightarrow> Inl TypeError))))"

section \<open>Facts about the schema and the parser\<close>

lemma z_enum_string: "z_enum (ThemeMode_string m) = Some m"
  by (cases m) (simp_all add: z_enum_def)

lemma z_enum_Some_iff: "z_enum s = Some m \<longleftrightarrow> s = ThemeMode_string m"
  by (cases m) (auto simp: z_enum_def split: if_splits)

lemma payload_of_theme_iff:
  "payload_of entries ''theme'' = Some (Single (Text s)) \<longleftrightarrow> getAll entries ''theme'' = [Text s]"
  by (auto simp: payload_of_def split: list.splits)

lemma ThemeFormSchema_Some_iff:
  "ThemeFormSchema (payload_of entries) = Some v \<longleftrightarrow>
     getAll entries ''theme'' = [Text (ThemeMode_string (theme v))]"
proof
  assume "ThemeFormSchema (payload_of entries) = Some v"
  then obtain s where s: "payload_of entries ''theme'' = Some (Single (Text s))"
    and "map_option (\<lambda>t. \<lparr>theme = t\<rparr>) (z_enum s) = Some v"
    by (auto simp: ThemeFormSchema_def
        split: option.splits PayloadValue.splits FormDataEntryValue.splits)
  then have "z_enum s = Some (theme v)"
    by auto
  then have "s = ThemeMode_string (theme v)"
    by (simp add: z_enum_Some_iff)
  with s show "getAll entries ''theme'' = [Text (ThemeMode_string (theme v))]"
    by (simp add: payload_of_theme_iff)
next
  assume "getAll entries ''theme'' = [Text (ThemeMode_string (theme v))]"
  then have "payload_of entries ''theme'' = Some (Single (Text (ThemeMode_string (theme v))))"
    by (simp add: payload_of_theme_iff)
  then show "ThemeFormSchema (payload_of entries) = Some v"
    by (simp add: ThemeFormSchema_def z_enum_string)
qed

lemma ThemeFormSchema_None_iff:
  "ThemeFormSchema (payload_of entries) = None \<longleftrightarrow>
     (\<nexists>m. getAll entries ''theme'' = [Text (ThemeMode_string m)])"
proof -
  have "ThemeFormSchema (payload_of entries) \<noteq> None \<longleftrightarrow>
      (\<exists>m. getAll entries ''theme'' = [Text (ThemeMode_string m)])"
  proof
    assume "ThemeFormSchema (payload_of entries) \<noteq> None"
    then obtain v where "ThemeFormSchema (payload_of entries) = Some v"
      by blast
    then show "\<exists>m. getAll entries ''theme'' = [Text (ThemeMode_string m)]"
      unfolding ThemeFormSchema_Some_iff by blast
  next
    assume "\<exists>m. getAll entries ''theme'' = [Text (ThemeMode_string m)]"
    then obtain m where "getAll entries ''theme'' = [Text (ThemeMode_string m)]" ..
    then have "ThemeFormSchema (payload_of entries) = Some \<lparr>theme = m\<rparr>"
      by (simp add: ThemeFormSchema_Some_iff)
    then show "ThemeFormSchema (payload_of entries) \<noteq> None"
      by simp
  qed
  then show ?thesis
    by blast
qed

lemma parseWithZod_plain:
  "plain_fields entries \<Longrightarrow>
   parseWithZod lib entries schema =
     (case schema (payload_of entries) of
        Some v \<Rightarrow> Inr (Succeeded v)
      | None \<Rightarrow> Inr Failed)"
  by (simp add: parseWithZod_def)

lemma parseWithZod_plain_Succeeded_iff:
  assumes "plain_fields entries"
  shows "parseWithZod lib entries ThemeFormSchema = Inr (Succeeded v) \<longleftrightarrow>
           getAll entries ''theme'' = [Text (ThemeMode_string (theme v))]"
  using ThemeFormSchema_Some_iff [of entries v]
  by (auto simp: parseWithZod_plain [OF assms] split: option.splits)

lemma parseWithZod_plain_Failed_iff:
  assumes "plain_fields entries"
  shows "parseWithZod lib entries ThemeFormSchema = Inr Failed \<longleftrightarrow>
           (\<nexists>m. getAll entries ''theme'' = [Text (ThemeMode_string m)])"
  using ThemeFormSchema_None_iff [of entries]
  by (auto simp: parseWithZod_plain [OF assms] split: option.splits)

lemma parseWithZod_plain_cases:
  assumes "plain_fields entries"
  shows "(\<exists>v. parseWithZod lib entries ThemeFormSchema = Inr (Succeeded v))
       \<or> parseWithZod lib entries ThemeFormSchema = Inr Failed"
  by (simp add: parseWithZod_plain [OF assms] split: option.splits)

lemma plain_name_theme: "plain_name ''theme''"
  by (simp add: plain_name_def letters_def object_members_def)

lemma plain_fields_single: "plain_name name \<Longrightarrow> plain_fields [(name, v)]"
  by (simp add: plain_fields_def getAll_def)

lemma parseWithZod_single_theme:
  "parseWithZod lib [(''theme'', Text s)] ThemeFormSchema =
     (case z_enum s of Some m \<Rightarrow> Inr (Succeeded \<lparr>theme = m\<rparr>) | None \<Rightarrow> Inr Failed)"
  by (simp add: parseWithZod_plain [OF plain_fields_single [OF plain_name_theme]]
      ThemeFormSchema_def payload_of_def getAll_def split: option.splits)

lemma not_plain_intent: "\<not> plain_fields ((''__intent__'', v) # entries)"
  by (simp add: plain_fields_def plain_name_def letters_def)

lemma plain_name_no_underscore:
  assumes "plain_name name"
  shows "CHR ''_'' \<notin> set name"
proof
  assume "CHR ''_'' \<in> set name"
  with assms have "CHR ''_'' \<in> set letters"
    unfolding plain_name_def list_all_iff by blast
  then show False
    by (simp add: letters_def)
qed

lemma plain_name_not_reserved:
  assumes "plain_name name"
  shows "name \<noteq> ''__intent__''" and "name \<noteq> ''__state__''"
  using plain_name_no_underscore [OF assms] by auto

lemma parseWithZod_null_intent:
  assumes "plain_name name"
  shows "parseWithZod lib [(''__intent__'', Text ''null''), (name, v)] schema = Inl TypeError"
proof -
  have "null_intent [(''__intent__'', Text ''null''), (name, v)]"
    using assms plain_name_not_reserved [OF assms] by (simp add: null_intent_def getAll_def)
  then show ?thesis
    by (simp add: parseWithZod_def not_plain_intent)
qed

lemma intent_text_not_plain:
  assumes "intent_text entries"
  shows "\<not> plain_fields entries"
proof
  assume plain: "plain_fields entries"
  from assms have "getAll entries ''__intent__'' \<noteq> []"
    by (auto simp: intent_text_def)
  then obtain v where "(''__intent__'', v) \<in> set entries"
    by (auto simp: getAll_def filter_empty_conv)
  with plain have "plain_name ''__intent__''"
    by (auto simp: plain_fields_def list_all_iff)
  then show False
    using plain_name_not_reserved(1) by blast
qed

lemma parseWithZod_intent_text:
  assumes "intent_text entries"
  shows "(\<exists>e. parseWithZod lib entries schema = Inl e)
       \<or> parseWithZod lib entries schema = Inr Unsettled"
  using intent_text_not_plain [OF assms] assms
  by (simp add: parseWithZod_def split: sum.splits)

lemma parseWithZod_validate_intent:
  assumes "plain_name name"
  shows "parseWithZod lib_unsettled [(''__intent__'', Text validate_intent), (name, v)] schema
           = Inr Unsettled"
proof -
  have "name \<noteq> ''__intent__''"
    using plain_name_not_reserved(1) [OF assms] .
  then have it: "intent_text [(''__intent__'', Text validate_intent), (name, v)]"
    and "\<not> null_intent [(''__intent__'', Text validate_intent), (name, v)]"
    by (simp_all add: intent_text_def null_intent_def getAll_def validate_intent_def)
  then show ?thesis
    by (simp add: parseWithZod_def not_plain_intent lib_unsettled_def)
qed

section \<open>The cycle of modes\<close>

text \<open>
  C3. \<^verbatim>\<open>nextMode\<close> is the cycle system, light, dark, system: three steps lead back to
  any mode, and no mode is its own successor (nor its successor's successor).
\<close>

theorem nextMode_cycle:
  "nextMode System = Light \<and> nextMode Light = Dark \<and> nextMode Dark = System
   \<and> (\<forall>m. nextMode (nextMode (nextMode m)) = m)
   \<and> (\<forall>m. nextMode m \<noteq> m)
   \<and> (\<forall>m. nextMode (nextMode m) \<noteq> m)"
proof -
  have three: "nextMode (nextMode (nextMode m)) = m" for m
    by (cases m) (simp_all add: nextMode_def)
  have one: "nextMode m \<noteq> m" for m
    by (cases m) (simp_all add: nextMode_def)
  have two: "nextMode (nextMode m) \<noteq> m" for m
    by (cases m) (simp_all add: nextMode_def)
  show ?thesis
    using three one two by (simp add: nextMode_def)
qed

section \<open>The first matching fetcher decides\<close>

lemma find_first:
  "(\<forall>g\<in>set pre. \<not> P g) \<Longrightarrow> P f \<Longrightarrow> List.find P (pre @ f # post) = Some f"
  by (induction pre) simp_all


lemma useOptimisticThemeMode_eq:
  "useOptimisticThemeMode lib fetchers =
     (case List.find (\<lambda>f. formAction f = Some ''/'') fetchers of
        None \<Rightarrow> Inr None
      | Some f \<Rightarrow>
          (case formData f of
             None \<Rightarrow> Inr None
           | Some payload \<Rightarrow>
               (case parseWithZod lib payload ThemeFormSchema of
                  Inl e \<Rightarrow> Inl e
                | Inr (Succeeded v) \<Rightarrow> Inr (Some (theme v))
                | Inr _ \<Rightarrow> Inr None)))"
  by (simp add: useOptimisticThemeMode_def Let_def split: option.splits sum.splits Submission.splits)


lemma useOptimisticThemeMode_match:
  assumes "\<forall>g\<in>set pre. formAction g \<noteq> Some ''/''" and "formAction f = Some ''/''"
  shows "useOptimisticThemeMode lib (pre @ f # post) =
           (case formData f of
              None \<Rightarrow> Inr None
            | Some payload \<Rightarrow>
                (case parseWithZod lib payload ThemeFormSchema of
                   Inl e \<Rightarrow> Inl e
                 | Inr (Succeeded v) \<Rightarrow> Inr (Some (theme v))
                 | Inr _ \<Rightarrow> Inr None))"
proof -
  have "List.find (\<lambda>f. formAction f = Some ''/'') (pre @ f # post) = Some f"
    using assms by (intro find_first) simp_all
  then show ?thesis
    by (simp add: useOptimisticThemeMode_eq)
qed




lemma useOptimisticThemeMode_single:
  "useOptimisticThemeMode lib [theme_fetcher ''/'' s] = Inr (z_enum s)"
  by (simp add: useOptimisticThemeMode_eq theme_fetcher_def parseWithZod_single_theme
      split: option.splits)

lemma useOptimisticThemeMode_Nil: "useOptimisticThemeMode lib [] = Inr None"
  by (simp add: useOptimisticThemeMode_eq)

lemma theme_fetcher_simps:
  "formAction (theme_fetcher path s) = Some path"
  "formData (theme_fetcher path s) = Some [(''theme'', Text s)]"
  by (simp_all add: theme_fetcher_def)

lemma plain_single_theme:
  "plain_fields [(''theme'', v)]" "getAll [(''theme'', v)] ''theme'' = [v]"
  by (simp_all add: plain_fields_single [OF plain_name_theme] getAll_def)


section \<open>The precedence of the three sources\<close>

lemma useTheme_eq:
  "useOptimisticThemeMode lib fetchers = Inr optimisticMode \<Longrightarrow>
   useTheme lib hints requestInfo fetchers =
     Inr (case optimisticMode of
            Some m \<Rightarrow> if m = System then hint_theme hints else m
          | None \<Rightarrow>
              (case prefs_theme (userPrefs requestInfo) of
                 Some t \<Rightarrow> Theme_mode t
               | None \<Rightarrow> hint_theme hints))"
  by (simp add: useTheme_def split: option.splits)

lemma useTheme_throw:
  "useTheme lib hints requestInfo fetchers = Inl e \<longleftrightarrow> useOptimisticThemeMode lib fetchers = Inl e"
  by (simp add: useTheme_def split: sum.splits option.splits)

text \<open>
  C1. The optimistic mode decides the result of \<^verbatim>\<open>useTheme\<close>: an optimistic system gives
  the hint, an optimistic light or dark gives that mode, and with no optimistic mode the
  result is the stored preference when there is one and the hint otherwise.
\<close>

theorem useTheme_precedence:
  "(useOptimisticThemeMode lib fetchers = Inr (Some System) \<longrightarrow>
      useTheme lib hints requestInfo fetchers = Inr (hint_theme hints))
   \<and> (useOptimisticThemeMode lib fetchers = Inr (Some Light) \<longrightarrow>
      useTheme lib hints requestInfo fetchers = Inr Light)
   \<and> (useOptimisticThemeMode lib fetchers = Inr (Some Dark) \<longrightarrow>
      useTheme lib hints requestInfo fetchers = Inr Dark)
   \<and> (useOptimisticThemeMode lib fetchers = Inr None \<longrightarrow>
      (\<forall>t. prefs_theme (userPrefs requestInfo) = Some t \<longrightarrow>
         useTheme lib hints requestInfo fetchers = Inr (Theme_mode t))
      \<and> (prefs_theme (userPrefs requestInfo) = None \<longrightarrow>
         useTheme lib hints requestInfo fetchers = Inr (hint_theme hints)))"
proof (intro conjI impI allI)
  assume "useOptimisticThemeMode lib fetchers = Inr (Some System)"
  from useTheme_eq [OF this]
  show "useTheme lib hints requestInfo fetchers = Inr (hint_theme hints)"
    by simp
next
  assume "useOptimisticThemeMode lib fetchers = Inr (Some Light)"
  from useTheme_eq [OF this] show "useTheme lib hints requestInfo fetchers = Inr Light"
    by simp
next
  assume "useOptimisticThemeMode lib fetchers = Inr (Some Dark)"
  from useTheme_eq [OF this] show "useTheme lib hints requestInfo fetchers = Inr Dark"
    by simp
next
  fix t
  assume "useOptimisticThemeMode lib fetchers = Inr None"
    and "prefs_theme (userPrefs requestInfo) = Some t"
  then show "useTheme lib hints requestInfo fetchers = Inr (Theme_mode t)"
    using useTheme_eq [of lib fetchers None hints requestInfo] by simp
next
  assume "useOptimisticThemeMode lib fetchers = Inr None"
    and "prefs_theme (userPrefs requestInfo) = None"
  then show "useTheme lib hints requestInfo fetchers = Inr (hint_theme hints)"
    using useTheme_eq [of lib fetchers None hints requestInfo] by simp
qed

theorem useTheme_precedence_witness:
  "useTheme lib_unsettled \<lparr>hint_theme = Dark\<rparr> \<lparr>userPrefs = \<lparr>prefs_theme = Some LightTheme\<rparr>\<rparr>
      [theme_fetcher ''/'' ''system''] = Inr Dark
   \<and> useTheme lib_unsettled \<lparr>hint_theme = Dark\<rparr> \<lparr>userPrefs = \<lparr>prefs_theme = Some DarkTheme\<rparr>\<rparr>
      [theme_fetcher ''/'' ''light''] = Inr Light
   \<and> useTheme lib_unsettled \<lparr>hint_theme = Light\<rparr> \<lparr>userPrefs = \<lparr>prefs_theme = Some LightTheme\<rparr>\<rparr>
      [theme_fetcher ''/'' ''dark''] = Inr Dark
   \<and> useTheme lib_unsettled \<lparr>hint_theme = Light\<rparr> \<lparr>userPrefs = \<lparr>prefs_theme = Some DarkTheme\<rparr>\<rparr>
      [] = Inr Dark
   \<and> useTheme lib_unsettled \<lparr>hint_theme = Light\<rparr> \<lparr>userPrefs = \<lparr>prefs_theme = None\<rparr>\<rparr>
      [] = Inr Light"
proof -
  have sys: "useOptimisticThemeMode lib_unsettled [theme_fetcher ''/'' ''system'']
      = Inr (Some System)"
    and light: "useOptimisticThemeMode lib_unsettled [theme_fetcher ''/'' ''light'']
      = Inr (Some Light)"
    and dark: "useOptimisticThemeMode lib_unsettled [theme_fetcher ''/'' ''dark'']
      = Inr (Some Dark)"
    by (simp_all add: useOptimisticThemeMode_single z_enum_def)
  note none = useOptimisticThemeMode_Nil [of lib_unsettled]
  have a: "useTheme lib_unsettled \<lparr>hint_theme = Dark\<rparr>
      \<lparr>userPrefs = \<lparr>prefs_theme = Some LightTheme\<rparr>\<rparr> [theme_fetcher ''/'' ''system''] = Inr Dark"
    using useTheme_precedence
        [of lib_unsettled "[theme_fetcher ''/'' ''system'']" "\<lparr>hint_theme = Dark\<rparr>"
          "\<lparr>userPrefs = \<lparr>prefs_theme = Some LightTheme\<rparr>\<rparr>"] sys
    by simp
  have b: "useTheme lib_unsettled \<lparr>hint_theme = Dark\<rparr>
      \<lparr>userPrefs = \<lparr>prefs_theme = Some DarkTheme\<rparr>\<rparr> [theme_fetcher ''/'' ''light''] = Inr Light"
    using useTheme_precedence
        [of lib_unsettled "[theme_fetcher ''/'' ''light'']" "\<lparr>hint_theme = Dark\<rparr>"
          "\<lparr>userPrefs = \<lparr>prefs_theme = Some DarkTheme\<rparr>\<rparr>"] light
    by simp
  have c: "useTheme lib_unsettled \<lparr>hint_theme = Light\<rparr>
      \<lparr>userPrefs = \<lparr>prefs_theme = Some LightTheme\<rparr>\<rparr> [theme_fetcher ''/'' ''dark''] = Inr Dark"
    using useTheme_precedence
        [of lib_unsettled "[theme_fetcher ''/'' ''dark'']" "\<lparr>hint_theme = Light\<rparr>"
          "\<lparr>userPrefs = \<lparr>prefs_theme = Some LightTheme\<rparr>\<rparr>"] dark
    by simp
  have d: "useTheme lib_unsettled \<lparr>hint_theme = Light\<rparr>
      \<lparr>userPrefs = \<lparr>prefs_theme = Some DarkTheme\<rparr>\<rparr> [] = Inr Dark"
    using useTheme_precedence
        [of lib_unsettled "[]" "\<lparr>hint_theme = Light\<rparr>"
          "\<lparr>userPrefs = \<lparr>prefs_theme = Some DarkTheme\<rparr>\<rparr>"] none
    by simp
  have e: "useTheme lib_unsettled \<lparr>hint_theme = Light\<rparr>
      \<lparr>userPrefs = \<lparr>prefs_theme = None\<rparr>\<rparr> [] = Inr Light"
    using useTheme_precedence
        [of lib_unsettled "[]" "\<lparr>hint_theme = Light\<rparr>"
          "\<lparr>userPrefs = \<lparr>prefs_theme = None\<rparr>\<rparr>"] none
    by simp
  show ?thesis
    using a b c d e by simp
qed

text \<open>
  C6. With an optimistic system, a stored dark and the hint light, \<^verbatim>\<open>useTheme\<close> returns
  light: the hint, not the stored preference.
\<close>

theorem useTheme_optimistic_system:
  assumes "useOptimisticThemeMode lib fetchers = Inr (Some System)"
    and "prefs_theme (userPrefs requestInfo) = Some DarkTheme"
    and "hint_theme hints = Light"
  shows "useTheme lib hints requestInfo fetchers = Inr Light"
  using useTheme_eq [OF assms(1), of hints requestInfo] assms(3) by simp

theorem useTheme_optimistic_system_witness:
  "useOptimisticThemeMode lib_unsettled [theme_fetcher ''/'' ''system''] = Inr (Some System)
   \<and> useTheme lib_unsettled \<lparr>hint_theme = Light\<rparr> \<lparr>userPrefs = \<lparr>prefs_theme = Some DarkTheme\<rparr>\<rparr>
       [theme_fetcher ''/'' ''system''] = Inr Light"
proof -
  have sys: "useOptimisticThemeMode lib_unsettled [theme_fetcher ''/'' ''system'']
      = Inr (Some System)"
    by (simp add: useOptimisticThemeMode_single z_enum_def)
  have "useTheme lib_unsettled \<lparr>hint_theme = Light\<rparr>
      \<lparr>userPrefs = \<lparr>prefs_theme = Some DarkTheme\<rparr>\<rparr> [theme_fetcher ''/'' ''system''] = Inr Light"
    by (rule useTheme_optimistic_system [OF sys]) simp_all
  with sys show ?thesis
    by simp
qed

section \<open>The result is renderable\<close>



section \<open>A payload that does not parse\<close>

text \<open>
  C5, as stated, fails: form data that is malformed in its reserved field makes the parser
  throw, and \<^verbatim>\<open>useTheme\<close> passes the error on. Here the fetcher for \<^verbatim>\<open>'/'\<close> carries
  \<^verbatim>\<open>__intent__ = null\<close> and \<^verbatim>\<open>theme = blue\<close>; with no fetcher the result is the stored dark.
\<close>

theorem useTheme_malformed_intent_counterexample:
  "useTheme lib_unsettled \<lparr>hint_theme = Light\<rparr> \<lparr>userPrefs = \<lparr>prefs_theme = Some DarkTheme\<rparr>\<rparr>
      [\<lparr>formAction = Some ''/'',
         formData = Some [(''__intent__'', Text ''null''), (''theme'', Text ''blue'')]\<rparr>]
      = Inl TypeError
   \<and> useTheme lib_unsettled \<lparr>hint_theme = Light\<rparr> \<lparr>userPrefs = \<lparr>prefs_theme = Some DarkTheme\<rparr>\<rparr>
      [] = Inr Dark"
  by (simp add: useTheme_def useOptimisticThemeMode_eq
      parseWithZod_null_intent [OF plain_name_theme])

text \<open>
  C5, amended. When the first fetcher with \<^verbatim>\<open>formAction\<close> \<^verbatim>\<open>'/'\<close> has no form data, or the
  parser returns a submission without success for its form data (on plain fields: the field
  \<^verbatim>\<open>theme\<close> is missing, repeated or not one of the three strings), \<^verbatim>\<open>useTheme\<close> returns
  normally what it returns with no fetcher at all: the stored preference when there is one,
  the hint otherwise.
\<close>

theorem useTheme_failed_payload:
  assumes "fetchers = pre @ f # post"
    and "\<forall>g\<in>set pre. formAction g \<noteq> Some ''/''"
    and "formAction f = Some ''/''"
    and "formData f = None
       \<or> (\<exists>payload. formData f = Some payload
             \<and> (parseWithZod lib payload ThemeFormSchema = Inr Failed
                  \<or> parseWithZod lib payload ThemeFormSchema = Inr Unsettled
                  \<or> (plain_fields payload
                       \<and> (\<nexists>m. getAll payload ''theme'' = [Text (ThemeMode_string m)]))))"
  shows "useTheme lib hints requestInfo fetchers = useTheme lib hints requestInfo []
       \<and> useTheme lib hints requestInfo fetchers =
           Inr (case prefs_theme (userPrefs requestInfo) of
                  Some t \<Rightarrow> Theme_mode t
                | None \<Rightarrow> hint_theme hints)"
proof -
  have none: "useOptimisticThemeMode lib fetchers = Inr None"
  proof (cases "formData f")
    case None
    then show ?thesis
      using useOptimisticThemeMode_match [OF assms(2,3), of lib post] assms(1) by simp
  next
    case (Some payload)
    with assms(4) consider "parseWithZod lib payload ThemeFormSchema = Inr Failed"
      | "parseWithZod lib payload ThemeFormSchema = Inr Unsettled"
      | "plain_fields payload"
        "\<nexists>m. getAll payload ''theme'' = [Text (ThemeMode_string m)]"
      by auto
    then have "parseWithZod lib payload ThemeFormSchema = Inr Failed
      \<or> parseWithZod lib payload ThemeFormSchema = Inr Unsettled"
    proof cases
      case 3
      then show ?thesis
        by (simp add: parseWithZod_plain_Failed_iff)
    qed simp_all
    with Some show ?thesis
      using useOptimisticThemeMode_match [OF assms(2,3), of lib post] assms(1) by auto
  qed
  show ?thesis
    using useTheme_eq [OF none, of hints requestInfo]
      useTheme_eq [OF useOptimisticThemeMode_Nil, of lib hints requestInfo]
    by simp
qed

theorem useTheme_failed_payload_witness:
  "useTheme lib_unsettled \<lparr>hint_theme = Light\<rparr> \<lparr>userPrefs = \<lparr>prefs_theme = Some DarkTheme\<rparr>\<rparr>
      [theme_fetcher ''/teams'' ''light'', theme_fetcher ''/'' ''blue'', theme_fetcher ''/'' ''light'']
      = Inr Dark
   \<and> useTheme lib_unsettled \<lparr>hint_theme = Light\<rparr> \<lparr>userPrefs = \<lparr>prefs_theme = None\<rparr>\<rparr>
      [\<lparr>formAction = Some ''/'', formData = None\<rparr>, theme_fetcher ''/'' ''dark''] = Inr Light
   \<and> useTheme lib_unsettled \<lparr>hint_theme = Light\<rparr> \<lparr>userPrefs = \<lparr>prefs_theme = None\<rparr>\<rparr>
      [\<lparr>formAction = Some ''/'', formData = Some [(''mode'', Text ''dark'')]\<rparr>] = Inr Light"
proof -
  let ?stored = "\<lambda>requestInfo hints.
    (case prefs_theme (userPrefs requestInfo) of
       Some t \<Rightarrow> Theme_mode t
     | None \<Rightarrow> hint_theme hints)"
  have "''blue'' \<noteq> ThemeMode_string m" for m
    by (cases m) simp_all
  then have blue: "plain_fields [(''theme'', Text ''blue'')]
      \<and> (\<nexists>m. getAll [(''theme'', Text ''blue'')] ''theme'' = [Text (ThemeMode_string m)])"
    by (simp add: plain_single_theme)
  have "useTheme lib_unsettled \<lparr>hint_theme = Light\<rparr> \<lparr>userPrefs = \<lparr>prefs_theme = Some DarkTheme\<rparr>\<rparr>
      [theme_fetcher ''/teams'' ''light'', theme_fetcher ''/'' ''blue'', theme_fetcher ''/'' ''light'']
      = Inr (?stored \<lparr>userPrefs = \<lparr>prefs_theme = Some DarkTheme\<rparr>\<rparr> \<lparr>hint_theme = Light\<rparr>)"
    using blue
    by (intro useTheme_failed_payload
        [where pre = "[theme_fetcher ''/teams'' ''light'']"
          and f = "theme_fetcher ''/'' ''blue''" and post = "[theme_fetcher ''/'' ''light'']",
          THEN conjunct2])
      (simp_all add: theme_fetcher_simps)
  then have a: "useTheme lib_unsettled \<lparr>hint_theme = Light\<rparr>
      \<lparr>userPrefs = \<lparr>prefs_theme = Some DarkTheme\<rparr>\<rparr>
      [theme_fetcher ''/teams'' ''light'', theme_fetcher ''/'' ''blue'', theme_fetcher ''/'' ''light'']
      = Inr Dark"
    by simp
  have "useTheme lib_unsettled \<lparr>hint_theme = Light\<rparr> \<lparr>userPrefs = \<lparr>prefs_theme = None\<rparr>\<rparr>
      [\<lparr>formAction = Some ''/'', formData = None\<rparr>, theme_fetcher ''/'' ''dark'']
      = Inr (?stored \<lparr>userPrefs = \<lparr>prefs_theme = None\<rparr>\<rparr> \<lparr>hint_theme = Light\<rparr>)"
    by (rule useTheme_failed_payload
        [where pre = "[]"
          and f = "\<lparr>formAction = Some ''/'', formData = None\<rparr>"
          and post = "[theme_fetcher ''/'' ''dark'']", THEN conjunct2])
      simp_all
  then have b: "useTheme lib_unsettled \<lparr>hint_theme = Light\<rparr> \<lparr>userPrefs = \<lparr>prefs_theme = None\<rparr>\<rparr>
      [\<lparr>formAction = Some ''/'', formData = None\<rparr>, theme_fetcher ''/'' ''dark''] = Inr Light"
    by simp
  have "plain_name ''mode''"
    by (simp add: plain_name_def letters_def object_members_def)
  then have mode: "plain_fields [(''mode'', Text ''dark'')]
      \<and> (\<nexists>m. getAll [(''mode'', Text ''dark'')] ''theme'' = [Text (ThemeMode_string m)])"
    by (simp add: plain_fields_single getAll_def)
  have "useTheme lib_unsettled \<lparr>hint_theme = Light\<rparr> \<lparr>userPrefs = \<lparr>prefs_theme = None\<rparr>\<rparr>
      [\<lparr>formAction = Some ''/'', formData = Some [(''mode'', Text ''dark'')]\<rparr>]
      = Inr (?stored \<lparr>userPrefs = \<lparr>prefs_theme = None\<rparr>\<rparr> \<lparr>hint_theme = Light\<rparr>)"
    using mode
    by (intro useTheme_failed_payload
        [where pre = "[]"
          and f = "\<lparr>formAction = Some ''/'', formData = Some [(''mode'', Text ''dark'')]\<rparr>"
          and post = "[]", THEN conjunct2])
      simp_all
  then have c: "useTheme lib_unsettled \<lparr>hint_theme = Light\<rparr> \<lparr>userPrefs = \<lparr>prefs_theme = None\<rparr>\<rparr>
      [\<lparr>formAction = Some ''/'', formData = Some [(''mode'', Text ''dark'')]\<rparr>] = Inr Light"
    by simp
  show ?thesis
    using a b c by simp
qed

section \<open>What the resolvers throw\<close>

text \<open>
  C7, as stated, fails: the resolvers call the parser unguarded, so on a fetcher for \<^verbatim>\<open>'/'\<close>
  whose form data carries \<^verbatim>\<open>__intent__ = null\<close> both throw a \<^verbatim>\<open>TypeError\<close>.
\<close>

theorem resolvers_throw_counterexample:
  "useOptimisticThemeMode lib_unsettled
      [\<lparr>formAction = Some ''/'',
         formData = Some [(''__intent__'', Text ''null''), (''theme'', Text ''dark'')]\<rparr>]
      = Inl TypeError
   \<and> useTheme lib_unsettled \<lparr>hint_theme = Light\<rparr> \<lparr>userPrefs = \<lparr>prefs_theme = None\<rparr>\<rparr>
      [\<lparr>formAction = Some ''/'',
         formData = Some [(''__intent__'', Text ''null''), (''theme'', Text ''dark'')]\<rparr>]
      = Inl TypeError"
  by (simp add: useTheme_def useOptimisticThemeMode_eq
      parseWithZod_null_intent [OF plain_name_theme])

text \<open>
  C7, amended. The resolvers have no failure of their own: \<^verbatim>\<open>useOptimisticThemeMode\<close> throws
  exactly when the parser throws on the form data of the first fetcher for \<^verbatim>\<open>'/'\<close>, and
  then that same error; \<^verbatim>\<open>useTheme\<close> throws exactly when \<^verbatim>\<open>useOptimisticThemeMode\<close> does.
  On a snapshot whose form data are all of plain fields neither throws, for every stored
  preference and hint.
\<close>

theorem resolvers_throw_only_parser:
  "(\<forall>e. useOptimisticThemeMode lib fetchers = Inl e \<longleftrightarrow>
          (\<exists>f payload. List.find (\<lambda>f. formAction f = Some ''/'') fetchers = Some f
             \<and> formData f = Some payload
             \<and> parseWithZod lib payload ThemeFormSchema = Inl e))
   \<and> (\<forall>e. useTheme lib hints requestInfo fetchers = Inl e \<longleftrightarrow>
          useOptimisticThemeMode lib fetchers = Inl e)
   \<and> ((\<forall>f\<in>set fetchers. \<forall>payload. formData f = Some payload \<longrightarrow> plain_fields payload) \<longrightarrow>
          (\<exists>optimisticMode. useOptimisticThemeMode lib fetchers = Inr optimisticMode)
          \<and> (\<exists>m. useTheme lib hints requestInfo fetchers = Inr m))"
proof (intro conjI allI impI)
  fix e
  show "useOptimisticThemeMode lib fetchers = Inl e \<longleftrightarrow>
      (\<exists>f payload. List.find (\<lambda>f. formAction f = Some ''/'') fetchers = Some f
         \<and> formData f = Some payload
         \<and> parseWithZod lib payload ThemeFormSchema = Inl e)"
    by (auto simp: useOptimisticThemeMode_eq split: option.splits sum.splits Submission.splits)
next
  fix e
  show "useTheme lib hints requestInfo fetchers = Inl e \<longleftrightarrow>
      useOptimisticThemeMode lib fetchers = Inl e"
    by (rule useTheme_throw)
next
  assume plain: "\<forall>f\<in>set fetchers. \<forall>payload. formData f = Some payload \<longrightarrow> plain_fields payload"
  show "\<exists>optimisticMode. useOptimisticThemeMode lib fetchers = Inr optimisticMode"
  proof (cases "List.find (\<lambda>f. formAction f = Some ''/'') fetchers")
    case None
    then show ?thesis
      by (simp add: useOptimisticThemeMode_eq)
  next
    case (Some f)
    then have "f \<in> set fetchers"
      by (auto simp: find_Some_iff)
    show ?thesis
    proof (cases "formData f")
      case None
      with Some show ?thesis
        by (simp add: useOptimisticThemeMode_eq)
    next
      case (Some payload)
      with plain \<open>f \<in> set fetchers\<close> have "plain_fields payload"
        by blast
      from parseWithZod_plain_cases [OF this, of lib] Some
        \<open>List.find (\<lambda>f. formAction f = Some ''/'') fetchers = Some f\<close>
      show ?thesis
        by (auto simp: useOptimisticThemeMode_eq)
    qed
  qed
  then obtain r where "useOptimisticThemeMode lib fetchers = Inr r" ..
  from useTheme_eq [OF this] show "\<exists>m. useTheme lib hints requestInfo fetchers = Inr m"
    by blast
qed

theorem resolvers_throw_only_parser_witness:
  "useOptimisticThemeMode lib_unsettled
      [theme_fetcher ''/teams'' ''dark'', theme_fetcher ''/'' ''blue''] = Inr None
   \<and> useTheme lib_unsettled \<lparr>hint_theme = Light\<rparr> \<lparr>userPrefs = \<lparr>prefs_theme = None\<rparr>\<rparr>
      [theme_fetcher ''/teams'' ''dark'', theme_fetcher ''/'' ''blue''] = Inr Light"
proof -
  let ?fetchers = "[theme_fetcher ''/teams'' ''dark'', theme_fetcher ''/'' ''blue'']"
  have plain: "\<forall>f\<in>set ?fetchers. \<forall>payload. formData f = Some payload \<longrightarrow> plain_fields payload"
    by (simp add: theme_fetcher_simps plain_single_theme)
  from resolvers_throw_only_parser
      [of lib_unsettled ?fetchers "\<lparr>hint_theme = Light\<rparr>" "\<lparr>userPrefs = \<lparr>prefs_theme = None\<rparr>\<rparr>",
        THEN conjunct2, THEN conjunct2, THEN mp, OF plain]
  obtain r m where r: "useOptimisticThemeMode lib_unsettled ?fetchers = Inr r"
    and m: "useTheme lib_unsettled \<lparr>hint_theme = Light\<rparr> \<lparr>userPrefs = \<lparr>prefs_theme = None\<rparr>\<rparr>
      ?fetchers = Inr m"
    by blast
  have "useOptimisticThemeMode lib_unsettled ?fetchers = Inr None"
    by (simp add: useOptimisticThemeMode_eq theme_fetcher_def parseWithZod_single_theme z_enum_def)
  with r m show ?thesis
    by (simp add: useTheme_def)
qed

section \<open>The server action and the schema\<close>

lemma action_eq:
  "body request = Some payload \<Longrightarrow>
   action lib setTheme request =
     (case parseWithZod lib payload ThemeFormSchema of
        Inl e \<Rightarrow> Inl e
      | Inr (Succeeded v) \<Rightarrow> Inr \<lparr>result = Success, set_cookie = setTheme (theme v)\<rparr>
      | Inr _ \<Rightarrow> Inl (Response 400 ''Invalid theme received''))"
  by (simp add: action_def invariantResponse_def split: sum.splits Submission.splits)

lemma action_accepted:
  assumes "body request = Some payload"
    and "plain_fields payload"
    and "getAll payload ''theme'' = [Text (ThemeMode_string m)]"
  shows "action lib setTheme request = Inr \<lparr>result = Success, set_cookie = setTheme m\<rparr>"
proof -
  have "parseWithZod lib payload ThemeFormSchema = Inr (Succeeded \<lparr>theme = m\<rparr>)"
    using assms(3) by (simp add: parseWithZod_plain_Succeeded_iff [OF assms(2)])
  then show ?thesis
    by (simp add: action_eq [OF assms(1)])
qed

lemma action_rejected:
  assumes "body request = Some payload"
    and "plain_fields payload"
    and "\<nexists>m. getAll payload ''theme'' = [Text (ThemeMode_string m)]"
  shows "action lib setTheme request = Inl (Response 400 ''Invalid theme received'')"
proof -
  have "parseWithZod lib payload ThemeFormSchema = Inr Failed"
    using assms(3) by (simp add: parseWithZod_plain_Failed_iff [OF assms(2)])
  then show ?thesis
    by (simp add: action_eq [OF assms(1)])
qed

text \<open>
  C8, as stated, fails: form data that sends \<^verbatim>\<open>theme = dark\<close> twice contains a field
  \<^verbatim>\<open>theme\<close> whose value is one of the three, and the action rejects it, since the schema
  is given the array of both values.
\<close>

theorem action_repeated_theme_counterexample:
  "(''theme'', Text ''dark'') \<in> set [(''theme'', Text ''dark''), (''theme'', Text ''dark'')]
   \<and> action lib_unsettled ThemeMode_string
        \<lparr>body = Some [(''theme'', Text ''dark''), (''theme'', Text ''dark'')]\<rparr>
      = Inl (Response 400 ''Invalid theme received'')"
proof -
  have "plain_fields [(''theme'', Text ''dark''), (''theme'', Text ''dark'')]"
    by (simp add: plain_fields_def getAll_def plain_name_theme)
  then have "action lib_unsettled ThemeMode_string
        \<lparr>body = Some [(''theme'', Text ''dark''), (''theme'', Text ''dark'')]\<rparr>
      = Inl (Response 400 ''Invalid theme received'')"
    by (intro action_rejected [where payload = "[(''theme'', Text ''dark''), (''theme'', Text ''dark'')]"])
      (simp_all add: getAll_def)
  then show ?thesis
    by simp
qed

text \<open>
  C8, amended. For a request with form data, the action answers with a response exactly
  when the parser returns a successful submission, and the cookie it sets is that of the
  parsed \<^verbatim>\<open>theme\<close>; a submission without success is rejected with the response
  400 Invalid theme received before the value is used. On form data of plain fields the
  action answers with a response exactly when there is one field \<^verbatim>\<open>theme\<close>, not repeated,
  whose value is one of the strings system, light and dark, and rejects every other payload.
  Form data that carry an intent are never accepted, whatever their field \<^verbatim>\<open>theme\<close>: the
  action rejects them, unless the parser throws.
\<close>

theorem action_accepts_iff:
  assumes "body request = Some payload"
  shows "((\<exists>response. action lib setTheme request = Inr response) \<longleftrightarrow>
            (\<exists>v. parseWithZod lib payload ThemeFormSchema = Inr (Succeeded v)))
       \<and> (\<forall>v. parseWithZod lib payload ThemeFormSchema = Inr (Succeeded v) \<longrightarrow>
            action lib setTheme request = Inr \<lparr>result = Success, set_cookie = setTheme (theme v)\<rparr>)
       \<and> (parseWithZod lib payload ThemeFormSchema = Inr Failed
            \<or> parseWithZod lib payload ThemeFormSchema = Inr Unsettled \<longrightarrow>
            action lib setTheme request = Inl (Response 400 ''Invalid theme received''))
       \<and> (plain_fields payload \<longrightarrow>
            ((\<exists>response. action lib setTheme request = Inr response) \<longleftrightarrow>
               (\<exists>m. getAll payload ''theme'' = [Text (ThemeMode_string m)]))
            \<and> (\<forall>m. getAll payload ''theme'' = [Text (ThemeMode_string m)] \<longrightarrow>
                 action lib setTheme request = Inr \<lparr>result = Success, set_cookie = setTheme m\<rparr>)
            \<and> ((\<nexists>m. getAll payload ''theme'' = [Text (ThemeMode_string m)]) \<longrightarrow>
                 action lib setTheme request = Inl (Response 400 ''Invalid theme received'')))
       \<and> (intent_text payload \<longrightarrow>
            action lib setTheme request = Inl (Response 400 ''Invalid theme received'')
            \<or> (\<exists>e. parseWithZod lib payload ThemeFormSchema = Inl e
                  \<and> action lib setTheme request = Inl e))"
proof (intro conjI allI impI)
  show "(\<exists>response. action lib setTheme request = Inr response) \<longleftrightarrow>
      (\<exists>v. parseWithZod lib payload ThemeFormSchema = Inr (Succeeded v))"
    by (auto simp: action_eq [OF assms] split: sum.splits Submission.splits)
next
  fix v
  assume "parseWithZod lib payload ThemeFormSchema = Inr (Succeeded v)"
  then show "action lib setTheme request = Inr \<lparr>result = Success, set_cookie = setTheme (theme v)\<rparr>"
    by (simp add: action_eq [OF assms])
next
  assume "parseWithZod lib payload ThemeFormSchema = Inr Failed
    \<or> parseWithZod lib payload ThemeFormSchema = Inr Unsettled"
  then show "action lib setTheme request = Inl (Response 400 ''Invalid theme received'')"
    by (auto simp: action_eq [OF assms])
next
  assume plain: "plain_fields payload"
  show "(\<exists>response. action lib setTheme request = Inr response) \<longleftrightarrow>
      (\<exists>m. getAll payload ''theme'' = [Text (ThemeMode_string m)])"
  proof
    assume ok: "\<exists>response. action lib setTheme request = Inr response"
    show "\<exists>m. getAll payload ''theme'' = [Text (ThemeMode_string m)]"
    proof (rule ccontr)
      assume "\<nexists>m. getAll payload ''theme'' = [Text (ThemeMode_string m)]"
      from action_rejected [OF assms plain this, of lib setTheme] ok show False
        by simp
    qed
  next
    assume "\<exists>m. getAll payload ''theme'' = [Text (ThemeMode_string m)]"
    then obtain m where "getAll payload ''theme'' = [Text (ThemeMode_string m)]" ..
    from action_accepted [OF assms plain this]
    show "\<exists>response. action lib setTheme request = Inr response"
      by blast
  qed
next
  fix m
  assume "plain_fields payload" and "getAll payload ''theme'' = [Text (ThemeMode_string m)]"
  with assms show "action lib setTheme request = Inr \<lparr>result = Success, set_cookie = setTheme m\<rparr>"
    by (rule action_accepted)
next
  assume "plain_fields payload" and "\<nexists>m. getAll payload ''theme'' = [Text (ThemeMode_string m)]"
  with assms show "action lib setTheme request = Inl (Response 400 ''Invalid theme received'')"
    by (rule action_rejected)
next
  assume "intent_text payload"
  from parseWithZod_intent_text [OF this, of lib ThemeFormSchema]
  show "action lib setTheme request = Inl (Response 400 ''Invalid theme received'')
      \<or> (\<exists>e. parseWithZod lib payload ThemeFormSchema = Inl e
            \<and> action lib setTheme request = Inl e)"
    by (auto simp: action_eq [OF assms])
qed

theorem action_accepts_iff_witness:
  "action lib_unsettled ThemeMode_string \<lparr>body = Some [(''theme'', Text ''dark'')]\<rparr>
      = Inr \<lparr>result = Success, set_cookie = ''dark''\<rparr>
   \<and> action lib_unsettled ThemeMode_string \<lparr>body = Some [(''theme'', Text ''blue'')]\<rparr>
      = Inl (Response 400 ''Invalid theme received'')
   \<and> action lib_unsettled ThemeMode_string \<lparr>body = Some [(''theme'', File)]\<rparr>
      = Inl (Response 400 ''Invalid theme received'')
   \<and> action lib_unsettled ThemeMode_string \<lparr>body = Some []\<rparr>
      = Inl (Response 400 ''Invalid theme received'')
   \<and> action lib_unsettled ThemeMode_string
        \<lparr>body = Some [(''__intent__'', Text validate_intent), (''theme'', Text ''dark'')]\<rparr>
      = Inl (Response 400 ''Invalid theme received'')"
proof -
  have bd: "body \<lparr>body = Some payload\<rparr> = Some payload" for payload :: FormData
    by simp
  have dark: "getAll [(''theme'', Text ''dark'')] ''theme'' = [Text (ThemeMode_string Dark)]"
    by (simp add: plain_single_theme)
  have "action lib_unsettled ThemeMode_string \<lparr>body = Some [(''theme'', Text ''dark'')]\<rparr>
      = Inr \<lparr>result = Success, set_cookie = ThemeMode_string Dark\<rparr>"
    using action_accepts_iff
        [where payload = "[(''theme'', Text ''dark'')]" and lib = lib_unsettled and setTheme = ThemeMode_string,
          OF bd]
      dark plain_single_theme(1) [of "Text ''dark''"]
    by blast
  then have a: "action lib_unsettled ThemeMode_string \<lparr>body = Some [(''theme'', Text ''dark'')]\<rparr>
      = Inr \<lparr>result = Success, set_cookie = ''dark''\<rparr>"
    by simp
  have "''blue'' \<noteq> ThemeMode_string m" for m
    by (cases m) simp_all
  then have blue: "\<nexists>m. getAll [(''theme'', Text ''blue'')] ''theme'' = [Text (ThemeMode_string m)]"
    by (simp add: plain_single_theme)
  have b: "action lib_unsettled ThemeMode_string \<lparr>body = Some [(''theme'', Text ''blue'')]\<rparr>
      = Inl (Response 400 ''Invalid theme received'')"
    using action_accepts_iff
        [where payload = "[(''theme'', Text ''blue'')]" and lib = lib_unsettled and setTheme = ThemeMode_string,
          OF bd]
      blue plain_single_theme(1) [of "Text ''blue''"]
    by blast
  have nofile: "\<nexists>m. getAll [(''theme'', File)] ''theme'' = [Text (ThemeMode_string m)]"
    by (simp add: plain_single_theme)
  have c: "action lib_unsettled ThemeMode_string \<lparr>body = Some [(''theme'', File)]\<rparr>
      = Inl (Response 400 ''Invalid theme received'')"
    using action_accepts_iff
        [where payload = "[(''theme'', File)]" and lib = lib_unsettled and setTheme = ThemeMode_string,
          OF bd]
      nofile plain_single_theme(1) [of File]
    by blast
  have empty: "plain_fields []" "\<nexists>m. getAll [] ''theme'' = [Text (ThemeMode_string m)]"
    by (simp_all add: plain_fields_def getAll_def)
  have d: "action lib_unsettled ThemeMode_string \<lparr>body = Some []\<rparr>
      = Inl (Response 400 ''Invalid theme received'')"
    using action_accepts_iff
        [where payload = "[]" and lib = lib_unsettled and setTheme = ThemeMode_string,
          OF bd] empty
    by blast
  have unsettled: "parseWithZod lib_unsettled
      [(''__intent__'', Text validate_intent), (''theme'', Text ''dark'')] ThemeFormSchema
      = Inr Unsettled"
    by (rule parseWithZod_validate_intent [OF plain_name_theme])
  have e: "action lib_unsettled ThemeMode_string
        \<lparr>body = Some [(''__intent__'', Text validate_intent), (''theme'', Text ''dark'')]\<rparr>
      = Inl (Response 400 ''Invalid theme received'')"
    using action_accepts_iff
        [where payload = "[(''__intent__'', Text validate_intent), (''theme'', Text ''dark'')]"
          and lib = lib_unsettled and setTheme = ThemeMode_string, OF bd] unsettled
    by blast
  show ?thesis
    using a b c d e by simp
qed

section \<open>What the theme switch submits\<close>

lemma ThemeSwitch_eq:
  "useOptimisticThemeMode lib fetchers = Inr optimisticMode \<Longrightarrow>
   ThemeSwitch lib userPreference fetchers =
     (let mode = (case optimisticMode of
                    Some m \<Rightarrow> m
                  | None \<Rightarrow>
                      (case userPreference of Some t \<Rightarrow> Theme_mode t | None \<Rightarrow> System))
      in Inr \<lparr>shown = mode, hidden_theme = ThemeMode_string (nextMode mode)\<rparr>)"
  by (simp add: ThemeSwitch_def)

lemma ThemeSwitch_rendered:
  assumes "ThemeSwitch lib userPreference fetchers = Inr form"
  shows "hidden_theme form = ThemeMode_string (nextMode (shown form))"
proof -
  obtain r where r: "useOptimisticThemeMode lib fetchers = Inr r"
    using assms by (auto simp: ThemeSwitch_def split: sum.splits)
  from ThemeSwitch_eq [OF r, of userPreference] assms show ?thesis
    by (auto simp: Let_def)
qed

text \<open>
  C9. Every form \<^verbatim>\<open>ThemeSwitch\<close> renders, for whatever stored preference and snapshot of
  fetchers, has as its hidden input \<^verbatim>\<open>theme\<close> the string of \<^verbatim>\<open>nextMode\<close> of the mode shown,
  and the action accepts the submission of that form, setting the cookie of that next mode:
  it does not answer 400 Invalid theme received.
\<close>

theorem ThemeSwitch_submission_accepted:
  assumes "ThemeSwitch lib userPreference fetchers = Inr form"
  shows "hidden_theme form = ThemeMode_string (nextMode (shown form))
       \<and> action lib' setTheme \<lparr>body = Some (submitted form)\<rparr>
           = Inr \<lparr>result = Success, set_cookie = setTheme (nextMode (shown form))\<rparr>
       \<and> action lib' setTheme \<lparr>body = Some (submitted form)\<rparr>
           \<noteq> Inl (Response 400 ''Invalid theme received'')"
proof -
  have hidden: "hidden_theme form = ThemeMode_string (nextMode (shown form))"
    using assms by (rule ThemeSwitch_rendered)
  have accepted: "action lib' setTheme \<lparr>body = Some (submitted form)\<rparr>
      = Inr \<lparr>result = Success, set_cookie = setTheme (nextMode (shown form))\<rparr>"
    by (rule action_accepted [where payload = "submitted form"])
      (simp_all add: submitted_def plain_single_theme hidden)
  then have "action lib' setTheme \<lparr>body = Some (submitted form)\<rparr>
      \<noteq> Inl (Response 400 ''Invalid theme received'')"
    by simp
  with hidden accepted show ?thesis
    by blast
qed

theorem ThemeSwitch_submission_accepted_witness:
  "ThemeSwitch lib_unsettled (Some DarkTheme) [] = Inr \<lparr>shown = Dark, hidden_theme = ''system''\<rparr>
   \<and> action lib_unsettled ThemeMode_string
        \<lparr>body = Some (submitted \<lparr>shown = Dark, hidden_theme = ''system''\<rparr>)\<rparr>
      = Inr \<lparr>result = Success, set_cookie = ''system''\<rparr>
   \<and> ThemeSwitch lib_unsettled None [theme_fetcher ''/'' ''light'']
      = Inr \<lparr>shown = Light, hidden_theme = ''dark''\<rparr>
   \<and> action lib_unsettled ThemeMode_string
        \<lparr>body = Some (submitted \<lparr>shown = Light, hidden_theme = ''dark''\<rparr>)\<rparr>
      = Inr \<lparr>result = Success, set_cookie = ''dark''\<rparr>"
proof -
  have r1: "ThemeSwitch lib_unsettled (Some DarkTheme) []
      = Inr \<lparr>shown = Dark, hidden_theme = ''system''\<rparr>"
    by (simp add: ThemeSwitch_eq [OF useOptimisticThemeMode_Nil] nextMode_def)
  have light: "useOptimisticThemeMode lib_unsettled [theme_fetcher ''/'' ''light'']
      = Inr (Some Light)"
    by (simp add: useOptimisticThemeMode_single z_enum_def)
  have r2: "ThemeSwitch lib_unsettled None [theme_fetcher ''/'' ''light'']
      = Inr \<lparr>shown = Light, hidden_theme = ''dark''\<rparr>"
    by (simp add: ThemeSwitch_eq [OF light] nextMode_def)
  from ThemeSwitch_submission_accepted [OF r1, of lib_unsettled ThemeMode_string]
    ThemeSwitch_submission_accepted [OF r2, of lib_unsettled ThemeMode_string] r1 r2
  show ?thesis
    by (simp add: nextMode_def)
qed

text \<open>
  C10. With no optimistic mode and no stored preference, \<^verbatim>\<open>ThemeSwitch\<close> shows the mode
  system (it is given no hint), and the form it renders submits \<^verbatim>\<open>theme = light\<close>.
\<close>

theorem ThemeSwitch_default_system:
  assumes "useOptimisticThemeMode lib fetchers = Inr None"
  shows "ThemeSwitch lib None fetchers = Inr \<lparr>shown = System, hidden_theme = ''light''\<rparr>
       \<and> submitted \<lparr>shown = System, hidden_theme = ''light''\<rparr> = [(''theme'', Text ''light'')]"
  using ThemeSwitch_eq [OF assms, of None] by (simp add: nextMode_def submitted_def)

theorem ThemeSwitch_default_system_witness:
  "useOptimisticThemeMode lib_unsettled [theme_fetcher ''/teams'' ''dark''] = Inr None
   \<and> ThemeSwitch lib_unsettled None [theme_fetcher ''/teams'' ''dark'']
       = Inr \<lparr>shown = System, hidden_theme = ''light''\<rparr>
   \<and> ThemeSwitch lib_unsettled None [] = Inr \<lparr>shown = System, hidden_theme = ''light''\<rparr>"
proof -
  have none: "useOptimisticThemeMode lib_unsettled [theme_fetcher ''/teams'' ''dark''] = Inr None"
    by (simp add: useOptimisticThemeMode_eq theme_fetcher_def)
  from ThemeSwitch_default_system [OF none]
    ThemeSwitch_default_system [OF useOptimisticThemeMode_Nil, of lib_unsettled] none
  show ?thesis
    by simp
qed

end
